theory Spec2Isabelle
  imports Main
begin

section \<open>Python strings\<close>

text \<open>
  A Python \<open>str\<close> is modelled as a HOL \<open>string\<close> whose characters are the code points
  below 256. On that range \<open>str.isspace\<close>, \<open>str.lower\<close>, \<open>str.strip\<close>,
  \<open>str.replace\<close> and \<open>str.split\<close> are the functions below.
\<close>

definition isspace :: "char \<Rightarrow> bool" where
  "isspace c = (of_char c \<in> {9, 10, 11, 12, 13, 28, 29, 30, 31, 32, 133, 160 :: nat})"

definition lower_char :: "char \<Rightarrow> char" where
  "lower_char c =
     (let n = (of_char c :: nat)
      in if (65 \<le> n \<and> n \<le> 90) \<or> (192 \<le> n \<and> n \<le> 222 \<and> n \<noteq> 215)
         then char_of (n + 32) else c)"

definition str_lower :: "string \<Rightarrow> string" where
  "str_lower s = map lower_char s"

definition str_strip :: "string \<Rightarrow> string" where
  "str_strip s = rev (dropWhile isspace (rev (dropWhile isspace s)))"

text \<open>
  \<open>s.replace(old, new)\<close>: every non-overlapping occurrence of \<open>old\<close>, scanning from the
  left, becomes \<open>new\<close>; an empty \<open>old\<close> matches before every character and at the end.
\<close>

function str_replace :: "string \<Rightarrow> string \<Rightarrow> string \<Rightarrow> string" where
  "str_replace old new [] = (if old = [] then new else [])"
| "str_replace old new (c # cs) =
     (if old = [] then new @ c # str_replace old new cs
      else if take (length old) (c # cs) = old
           then new @ str_replace old new (drop (length old) (c # cs))
           else c # str_replace old new cs)"
  by pat_completeness auto
termination
  by (relation "measure (\<lambda>(old, new, s). length s)") auto

text \<open>\<open>s.split(sep)\<close> for a one-character separator: always at least one field.\<close>

fun str_split :: "char \<Rightarrow> string \<Rightarrow> string list" where
  "str_split sep [] = [[]]"
| "str_split sep (c # cs) =
     (case str_split sep cs of
        [] \<Rightarrow> (if c = sep then [[], []] else [[c]])
      | f # fs \<Rightarrow> (if c = sep then [] # f # fs else (c # f) # fs))"

section \<open>Tables\<close>

text \<open>
  A cell of a loaded frame: the missing markers \<open>NaN\<close> and \<open>NaT\<close>, text, the numeric
  and boolean values the reader infers, and a time stamp (nanoseconds since the epoch)
  once a column has been parsed as dates. A float is kept as mantissa and exponent; the
  program never computes with it.
\<close>

datatype cell = NaN | NaT | Str string | IntV int | FloatV int int | BoolV bool | Timestamp int

text \<open>
  A \<open>DataFrame\<close> is the list of its columns in order, each a label with its cells.
  Labels may repeat.
\<close>

type_synonym column = "string \<times> cell list"
type_synonym dataframe = "column list"

definition columns :: "dataframe \<Rightarrow> string list" where
  "columns df = map fst df"

definition set_columns :: "dataframe \<Rightarrow> string list \<Rightarrow> dataframe" where
  "set_columns df names = zip names (map snd df)"

subsection \<open>Column-name cleaning (lines 18 to 22)\<close>

text \<open>
  The \<open>.str\<close> accessor of an index applies a string method to every label and returns
  the new index; the source chains three of them.
\<close>

definition index_strip :: "string list \<Rightarrow> string list" where
  "index_strip idx = map str_strip idx"

definition index_lower :: "string list \<Rightarrow> string list" where
  "index_lower idx = map str_lower idx"

definition index_replace :: "string \<Rightarrow> string \<Rightarrow> string list \<Rightarrow> string list" where
  "index_replace old new idx = map (str_replace old new) idx"

definition clean_column_names :: "string list \<Rightarrow> string list" where
  "clean_column_names idx = index_replace '' '' ''_'' (index_lower (index_strip idx))"

definition clean_columns :: "dataframe \<Rightarrow> dataframe" where
  "clean_columns df = set_columns df (clean_column_names (columns df))"

text \<open>The cleaning of one name as the specification words it.\<close>

definition space_to_underscore :: "char \<Rightarrow> char" where
  "space_to_underscore c = (if c = CHR '' '' then CHR ''_'' else c)"

definition clean_name :: "string \<Rightarrow> string" where
  "clean_name s = map space_to_underscore (str_lower (str_strip s))"

text \<open>A string that neither starts nor ends with white space.\<close>

definition trimmed :: "string \<Rightarrow> bool" where
  "trimmed s = (s = [] \<or> (\<not> isspace (hd s) \<and> \<not> isspace (last s)))"

subsection \<open>Exceptions\<close>

text \<open>
  The exception classes the program meets. \<open>OtherError\<close> stands for every class that
  is none of the named ones (\<open>OverflowError\<close>, \<open>PermissionError\<close>, ...).
\<close>

datatype py_error =
  ValueError | TypeError | KeyError | FileNotFoundError | EmptyDataError | OtherError string

subsection \<open>Missing values (line 25)\<close>

definition isna :: "cell \<Rightarrow> bool" where
  "isna c = (c = NaN \<or> c = NaT)"

definition fillna :: "cell \<Rightarrow> dataframe \<Rightarrow> dataframe" where
  "fillna v df = map (\<lambda>(name, cells). (name, map (\<lambda>c. if isna c then v else c) cells)) df"

subsection \<open>Date parsing (lines 28 to 32)\<close>

text \<open>
  The date parser belongs to the library. It is a parameter: given the column it works on
  (from which it infers a format) and one cell, it returns the parsed value or raises.
  Called on a series with the default \<open>errors='raise'\<close>, it parses cell by cell and
  raises at the first cell that fails.
\<close>

type_synonym date_parser = "cell list \<Rightarrow> cell \<Rightarrow> py_error + cell"

fun parse_cells :: "(cell \<Rightarrow> py_error + cell) \<Rightarrow> cell list \<Rightarrow> py_error + cell list" where
  "parse_cells p [] = Inr []"
| "parse_cells p (c # cs) =
     (case p c of
        Inl e \<Rightarrow> Inl e
      | Inr d \<Rightarrow> (case parse_cells p cs of Inl e \<Rightarrow> Inl e | Inr ds \<Rightarrow> Inr (d # ds)))"

text \<open>
  \<open>df[col]\<close>: a series when exactly one column carries the label, a frame of all the
  columns that carry it when the label repeats, \<open>KeyError\<close> when none does.
\<close>

datatype selection = Series "cell list" | Frame "cell list list"

definition getitem :: "dataframe \<Rightarrow> string \<Rightarrow> py_error + selection" where
  "getitem df col =
     (case filter (\<lambda>c. fst c = col) df of
        [] \<Rightarrow> Inl KeyError
      | [c] \<Rightarrow> Inr (Series (snd c))
      | cs \<Rightarrow> Inr (Frame (map snd cs)))"

text \<open>
  \<open>pd.to_datetime\<close>: a series is parsed cell by cell; a frame is assembled from unit
  columns, which is refused with \<open>ValueError\<close> when its labels repeat, and a frame
  selected by one label has only that label.
\<close>

fun to_datetime :: "date_parser \<Rightarrow> selection \<Rightarrow> py_error + cell list" where
  "to_datetime P (Series cells) = parse_cells (P cells) cells"
| "to_datetime P (Frame cols) = Inl ValueError"

definition setitem :: "dataframe \<Rightarrow> string \<Rightarrow> cell list \<Rightarrow> dataframe" where
  "setitem df col cells =
     map (\<lambda>(name, old). if name = col then (name, cells) else (name, old)) df"

text \<open>The loop over \<open>df.columns\<close> with its \<open>try\<close>/\<open>except (ValueError, TypeError)\<close>.\<close>

fun coerce_dates :: "date_parser \<Rightarrow> string list \<Rightarrow> dataframe \<Rightarrow> py_error + dataframe" where
  "coerce_dates P [] df = Inr df"
| "coerce_dates P (col # cols) df =
     (case (case getitem df col of Inl e \<Rightarrow> Inl e | Inr sel \<Rightarrow> to_datetime P sel) of
        Inr parsed \<Rightarrow> coerce_dates P cols (setitem df col parsed)
      | Inl e \<Rightarrow>
          if e = ValueError \<or> e = TypeError then coerce_dates P cols df else Inl e)"

definition clean_dataframe :: "date_parser \<Rightarrow> dataframe \<Rightarrow> py_error + dataframe" where
  "clean_dataframe P df =
     (let df1 = clean_columns df;
          df2 = fillna (Str []) df1
      in coerce_dates P (columns df2) df2)"

text \<open>The table on which date parsing starts: names cleaned and missing cells filled.\<close>

definition filled :: "dataframe \<Rightarrow> dataframe" where
  "filled df = fillna (Str []) (clean_columns df)"

text \<open>
  What date parsing makes of one column taken alone: the parsed cells when every cell
  parses, the cells as they are otherwise.
\<close>

definition parses :: "date_parser \<Rightarrow> cell list \<Rightarrow> cell \<Rightarrow> bool" where
  "parses P cells c = (case P cells c of Inl e \<Rightarrow> False | Inr d \<Rightarrow> True)"

definition parsed_value :: "date_parser \<Rightarrow> cell list \<Rightarrow> cell \<Rightarrow> cell" where
  "parsed_value P cells c = (case P cells c of Inl e \<Rightarrow> c | Inr d \<Rightarrow> d)"

definition unique_label :: "dataframe \<Rightarrow> string \<Rightarrow> bool" where
  "unique_label df name = (length (filter (\<lambda>c. fst c = name) df) = 1)"

definition caught :: "py_error \<Rightarrow> bool" where
  "caught e = (e = ValueError \<or> e = TypeError)"

definition failures_caught :: "date_parser \<Rightarrow> dataframe \<Rightarrow> bool" where
  "failures_caught P df =
     list_all (\<lambda>col. list_all (\<lambda>c. case P (snd col) c of Inl e \<Rightarrow> caught e | Inr d \<Rightarrow> True)
        (snd col)) df"

subsection \<open>Rename specification (lines 37 to 45)\<close>

text \<open>
  A Python \<open>dict\<close> is an association list in insertion order: assigning to a key that is
  present replaces its value in place, assigning to a new key appends it.
\<close>

type_synonym dict = "(string \<times> string) list"

fun dict_set :: "dict \<Rightarrow> string \<Rightarrow> string \<Rightarrow> dict" where
  "dict_set [] k v = [(k, v)]"
| "dict_set ((k', v') # d) k v = (if k' = k then (k, v) # d else (k', v') # dict_set d k v)"

definition dict_get :: "dict \<Rightarrow> string \<Rightarrow> string option" where
  "dict_get d k = map_of d k"

text \<open>\<open>old, new = pair.split(":")\<close> raises \<open>ValueError\<close> unless there are two fields.\<close>

fun unpack2 :: "string list \<Rightarrow> py_error + string \<times> string" where
  "unpack2 [old, new] = Inr (old, new)"
| "unpack2 fields = Inl ValueError"

fun rename_loop :: "string list \<Rightarrow> dict \<Rightarrow> py_error + dict" where
  "rename_loop [] rename_dict = Inr rename_dict"
| "rename_loop (pair # pairs) rename_dict =
     (case unpack2 (str_split CHR '':'' pair) of
        Inl e \<Rightarrow> Inl e
      | Inr (old, new) \<Rightarrow>
          rename_loop pairs (dict_set rename_dict (str_lower (str_strip old)) (str_strip new)))"

definition parse_rename_columns :: "string \<Rightarrow> py_error + dict" where
  "parse_rename_columns rename_str =
     (if rename_str \<noteq> [] then rename_loop (str_split CHR '','' rename_str) []
      else Inr [])"

text \<open>The pairs of a specification; the empty specification has none.\<close>

definition spec_pairs :: "string \<Rightarrow> string list" where
  "spec_pairs rename_str = (if rename_str \<noteq> [] then str_split CHR '','' rename_str else [])"

definition well_formed_pair :: "string \<Rightarrow> bool" where
  "well_formed_pair pair = (count_list pair CHR '':'' = 1)"

text \<open>
  A pair as the specification words it: the text before the colon, trimmed and
  lowercased, is the key; the text after it, trimmed, is the new name.
\<close>

definition pair_old :: "string \<Rightarrow> string" where
  "pair_old pair = takeWhile (\<lambda>c. c \<noteq> CHR '':'') pair"

definition pair_new :: "string \<Rightarrow> string" where
  "pair_new pair = tl (dropWhile (\<lambda>c. c \<noteq> CHR '':'') pair)"

definition pair_entry :: "string \<Rightarrow> string \<times> string" where
  "pair_entry pair = (str_lower (str_strip (pair_old pair)), str_strip (pair_new pair))"

text \<open>
  \<open>df.rename(columns=d, errors=...)\<close>: every label that is a key is replaced by its
  value; with \<open>errors='raise'\<close> a key that labels no column is a \<open>KeyError\<close>, with the
  default \<open>errors='ignore'\<close>, which the source uses, it is skipped.
\<close>

datatype errors_mode = Ignore | Raise

definition rename_label :: "dict \<Rightarrow> string \<Rightarrow> string" where
  "rename_label d name = (case dict_get d name of None \<Rightarrow> name | Some new \<Rightarrow> new)"

definition rename_columns :: "errors_mode \<Rightarrow> dict \<Rightarrow> dataframe \<Rightarrow> py_error + dataframe" where
  "rename_columns mode d df =
     (if mode = Raise \<and> list_ex (\<lambda>k. k \<notin> set (columns df)) (map fst d) then Inl KeyError
      else Inr (map (\<lambda>(name, cells). (rename_label d name, cells)) df))"

section \<open>Paths\<close>

text \<open>
  A POSIX \<open>pathlib.Path\<close>: the root (empty, one slash, or two slashes when the text
  starts with exactly two) and the components, empty ones and \<open>.\<close> dropped.
\<close>

type_synonym path = "string \<times> string list"

definition path_root :: "string \<Rightarrow> string" where
  "path_root s =
     (let n = length (takeWhile (\<lambda>c. c = CHR ''/'') s)
      in if n = 0 then [] else if n = 2 then ''//'' else ''/'')"

definition Path :: "string \<Rightarrow> path" where
  "Path s = (path_root s, filter (\<lambda>p. p \<noteq> [] \<and> p \<noteq> ''.'') (str_split CHR ''/'' s))"

fun str_join :: "string \<Rightarrow> string list \<Rightarrow> string" where
  "str_join sep [] = []"
| "str_join sep [p] = p"
| "str_join sep (p # ps) = p @ sep @ str_join sep ps"

definition path_str :: "path \<Rightarrow> string" where
  "path_str p = (if fst p = [] \<and> snd p = [] then ''.'' else fst p @ str_join ''/'' (snd p))"

definition path_name :: "path \<Rightarrow> string" where
  "path_name p = (if snd p = [] then [] else last (snd p))"

text \<open>\<open>s.rfind(c)\<close>: the index of the last occurrence, or -1.\<close>

fun str_rfind :: "char \<Rightarrow> string \<Rightarrow> int" where
  "str_rfind c [] = - 1"
| "str_rfind c (x # xs) =
     (let r = str_rfind c xs in if 0 \<le> r then r + 1 else if x = c then 0 else - 1)"

definition path_suffix :: "path \<Rightarrow> string" where
  "path_suffix p =
     (let name = path_name p; i = str_rfind CHR ''.'' name
      in if 0 < i \<and> i < int (length name) - 1 then drop (nat i) name else [])"

definition str_endswith :: "string \<Rightarrow> string \<Rightarrow> bool" where
  "str_endswith s suffix =
     (length suffix \<le> length s \<and> drop (length s - length suffix) s = suffix)"

section \<open>The pipeline\<close>

text \<open>
  The world the program acts on: the files by path, and the trace of what it has done
  (log lines, with the values formatted into them left out, and calls of the reader and
  the writer).
\<close>

datatype event = LogInfo string | LogError string | ReadCsv string | ToExcel string

record world =
  files :: "string \<rightharpoonup> string"
  trace :: "event list"

definition emit :: "event list \<Rightarrow> world \<Rightarrow> world" where
  "emit es w = w\<lparr>trace := trace w @ es\<rparr>"

text \<open>
  The library's reader and writer are parameters, with its date parser. The reader
  returns the table or raises. The writer returns the files as it leaves them and, when
  it raises, the exception.
\<close>

record pandas =
  parse_date :: date_parser
  read_csv :: "(string \<rightharpoonup> string) \<Rightarrow> string \<Rightarrow> py_error + dataframe"
  to_excel :: "dataframe \<Rightarrow> string \<Rightarrow> (string \<rightharpoonup> string) \<Rightarrow> py_error option \<times> (string \<rightharpoonup> string)"

text \<open>How a call ends: it returns, it raises \<open>SystemExit\<close> with a code, or it raises.\<close>

datatype outcome = Returned | SysExit nat | Raised py_error

definition exit_status :: "outcome \<Rightarrow> nat" where
  "exit_status out = (case out of Returned \<Rightarrow> 0 | SysExit n \<Rightarrow> n | Raised e \<Rightarrow> 1)"

definition read_error_message :: "py_error \<Rightarrow> string" where
  "read_error_message e =
     (if e = FileNotFoundError then ''Input file not found.''
      else if e = EmptyDataError then ''CSV file is empty.''
      else ''Error reading CSV'')"

definition clean_dataframe_log :: "event list" where
  "clean_dataframe_log =
     [LogInfo ''Cleaning column names...'', LogInfo ''Handling missing values...'',
      LogInfo ''Attempting date parsing...'']"

text \<open>Lines 65 to 68: the rename stage runs only for a non-empty specification.\<close>

definition rename_stage :: "string option \<Rightarrow> dataframe \<Rightarrow> world \<Rightarrow> (py_error + dataframe) \<times> world" where
  "rename_stage rename_str df w =
     (case rename_str of
        None \<Rightarrow> (Inr df, w)
      | Some r \<Rightarrow>
          if r = [] then (Inr df, w)
          else (case parse_rename_columns r of
                  Inl e \<Rightarrow> (Inl e, w)
                | Inr rename_dict \<Rightarrow>
                    (rename_columns Ignore rename_dict df, emit [LogInfo ''Renaming columns''] w)))"

text \<open>Lines 70 to 77.\<close>

definition write_stage :: "pandas \<Rightarrow> dataframe \<Rightarrow> string \<Rightarrow> world \<Rightarrow> outcome \<times> world" where
  "write_stage lib df output_file w =
     (let w1 = emit [LogInfo ''Writing Excel file'', ToExcel output_file] w
      in case to_excel lib df output_file (files w1) of
           (None, fs) \<Rightarrow>
             (Returned, emit [LogInfo ''Conversion completed successfully!''] (w1\<lparr>files := fs\<rparr>))
         | (Some e, fs) \<Rightarrow>
             (SysExit 1, emit [LogError ''Error writing Excel file''] (w1\<lparr>files := fs\<rparr>)))"

definition convert_csv_to_excel ::
  "pandas \<Rightarrow> string \<Rightarrow> string \<Rightarrow> string option \<Rightarrow> world \<Rightarrow> outcome \<times> world" where
  "convert_csv_to_excel lib input_file output_file rename_str w =
     (let w1 = emit [LogInfo ''Reading CSV file'', ReadCsv input_file] w
      in case read_csv lib (files w1) input_file of
           Inl e \<Rightarrow> (SysExit 1, emit [LogError (read_error_message e)] w1)
         | Inr df \<Rightarrow>
             (let w2 = emit clean_dataframe_log w1
              in case clean_dataframe (parse_date lib) df of
                   Inl e \<Rightarrow> (Raised e, w2)
                 | Inr df1 \<Rightarrow>
                     (case rename_stage rename_str df1 w2 of
                        (Inl e, w3) \<Rightarrow> (Raised e, w3)
                      | (Inr df2, w3) \<Rightarrow> write_stage lib df2 output_file w3)))"

text \<open>Lines 102 to 119; the argument parser has already filled \<open>args\<close>.\<close>

record args =
  arg_input :: string
  arg_output :: string
  arg_rename :: "string option"

definition path_exists :: "world \<Rightarrow> path \<Rightarrow> bool" where
  "path_exists w p = (files w (path_str p) \<noteq> None)"

definition main :: "pandas \<Rightarrow> args \<Rightarrow> world \<Rightarrow> outcome \<times> world" where
  "main lib a w =
     (let input_path = Path (arg_input a);
          output_path = Path (arg_output a)
      in if \<not> path_exists w input_path
         then (SysExit 1, emit [LogError ''Input file does not exist.''] w)
         else if path_suffix output_path \<noteq> ''.xlsx''
         then (SysExit 1, emit [LogError ''Output file must have .xlsx extension.''] w)
         else convert_csv_to_excel lib (path_str input_path) (path_str output_path)
                (arg_rename a) w)"

section \<open>Sample collaborators\<close>

text \<open>
  One concrete behaviour of the library, for evaluating the pipeline: a parser that
  accepts the text \<open>2020-01-01\<close> and \<open>2020-02-02\<close>, reads the empty text as \<open>NaT\<close> and
  an integer as a count of nanoseconds, and refuses everything else; a reader that
  raises on a missing or empty file and returns a fixed table otherwise; a writer that
  stores a workbook, and one that raises after it has begun the file.
\<close>

definition sample_parser :: date_parser where
  "sample_parser cells c =
     (case c of
        Str s \<Rightarrow>
          if s = [] then Inr NaT
          else if s = ''2020-01-01'' then Inr (Timestamp 1577836800000000000)
          else if s = ''2020-02-02'' then Inr (Timestamp 1580601600000000000)
          else Inl ValueError
      | IntV n \<Rightarrow> Inr (Timestamp n)
      | Timestamp t \<Rightarrow> Inr (Timestamp t)
      | NaN \<Rightarrow> Inr NaT
      | NaT \<Rightarrow> Inr NaT
      | FloatV m e \<Rightarrow> Inl ValueError
      | BoolV b \<Rightarrow> Inl TypeError)"

definition sample_table :: dataframe where
  "sample_table =
     [(''Name'', [Str ''Alice'', Str ''Bob'']), ('' DOB'', [Str ''2020-01-01'', Str ''2020-02-02''])]"

definition sample_reader :: "(string \<rightharpoonup> string) \<Rightarrow> string \<Rightarrow> py_error + dataframe" where
  "sample_reader fs p =
     (case fs p of
        None \<Rightarrow> Inl FileNotFoundError
      | Some content \<Rightarrow> if content = [] then Inl EmptyDataError else Inr sample_table)"

definition sample_writer ::
  "dataframe \<Rightarrow> string \<Rightarrow> (string \<rightharpoonup> string) \<Rightarrow> py_error option \<times> (string \<rightharpoonup> string)" where
  "sample_writer df p fs = (None, fs(p \<mapsto> ''workbook''))"

definition failing_writer ::
  "dataframe \<Rightarrow> string \<Rightarrow> (string \<rightharpoonup> string) \<Rightarrow> py_error option \<times> (string \<rightharpoonup> string)" where
  "failing_writer df p fs = (Some (OtherError ''OSError''), fs(p \<mapsto> ''PK''))"

definition sample_lib :: pandas where
  "sample_lib = \<lparr>parse_date = sample_parser, read_csv = sample_reader, to_excel = sample_writer\<rparr>"

definition failing_lib :: pandas where
  "failing_lib = \<lparr>parse_date = sample_parser, read_csv = sample_reader, to_excel = failing_writer\<rparr>"

definition sample_world :: world where
  "sample_world = \<lparr>files = [''in.csv'' \<mapsto> ''Name, DOB'', ''empty.csv'' \<mapsto> []], trace = []\<rparr>"

section \<open>Facts about the string functions\<close>

lemma str_replace_space: "str_replace '' '' ''_'' s = map space_to_underscore s"
  by (induction s) (simp_all add: space_to_underscore_def)

lemma of_char_lower_char:
  "of_char (lower_char c) =
     (let n = (of_char c :: nat)
      in if (65 \<le> n \<and> n \<le> 90) \<or> (192 \<le> n \<and> n \<le> 222 \<and> n \<noteq> 215)
         then n + 32 else n)"
  by (auto simp: lower_char_def Let_def)

lemma isspace_lower_char: "isspace (lower_char c) = isspace c"
  unfolding isspace_def of_char_lower_char Let_def by auto

lemma lower_char_idem: "lower_char (lower_char c) = lower_char c"
proof -
  have "(of_char (lower_char (lower_char c)) :: nat) = of_char (lower_char c)"
    unfolding of_char_lower_char [of "lower_char c"] Let_def
    by (auto simp: of_char_lower_char Let_def)
  then show ?thesis by simp
qed

lemma not_isspace_underscore: "\<not> isspace (space_to_underscore c) \<longleftrightarrow> \<not> isspace c \<or> c = CHR '' ''"
  by (auto simp: space_to_underscore_def isspace_def)

lemma space_to_underscore_idem: "space_to_underscore (space_to_underscore c) = space_to_underscore c"
  by (simp add: space_to_underscore_def)

lemma lower_char_underscore:
  "lower_char (space_to_underscore (lower_char c)) = space_to_underscore (lower_char c)"
proof (cases "lower_char c = CHR '' ''")
  case True
  then show ?thesis by (simp add: space_to_underscore_def lower_char_def)
next
  case False
  then show ?thesis by (simp add: space_to_underscore_def lower_char_idem)
qed

lemma str_strip_trimmed: "trimmed (str_strip s)"
proof -
  define d where "d = dropWhile isspace s"
  define t where "t = dropWhile isspace (rev d)"
  have strip: "str_strip s = rev t"
    by (simp add: str_strip_def d_def t_def)
  show ?thesis
  proof (cases "t = []")
    case True
    then show ?thesis by (simp add: strip trimmed_def)
  next
    case False
    then have hd_t: "\<not> isspace (hd t)"
      unfolding t_def by (rule hd_dropWhile)
    have split: "rev d = takeWhile isspace (rev d) @ t"
      by (simp add: t_def)
    have "last (rev d) = last (takeWhile isspace (rev d) @ t)"
      using split by simp
    also have "\<dots> = last t"
      using False by (rule last_appendR)
    finally have last_t: "last t = last (rev d)" by simp
    have d_ne: "d \<noteq> []"
    proof
      assume "d = []"
      then have "t = []" by (simp add: t_def)
      with False show False by simp
    qed
    then have "\<not> isspace (hd d)"
      unfolding d_def by (rule hd_dropWhile)
    then have "\<not> isspace (last t)"
      by (simp add: last_t last_rev)
    then show ?thesis
      using False hd_t by (simp add: strip trimmed_def hd_rev last_rev)
  qed
qed

lemma trimmed_str_strip:
  assumes "trimmed s"
  shows "str_strip s = s"
proof (cases "s = []")
  case True
  then show ?thesis by (simp add: str_strip_def)
next
  case False
  with assms have h: "\<not> isspace (hd s)" and l: "\<not> isspace (last s)"
    by (simp_all add: trimmed_def)
  from False h have a: "dropWhile isspace s = s"
    by (cases s) simp_all
  from False obtain y ys where r: "rev s = y # ys"
    by (cases "rev s") simp_all
  then have "rev (rev s) = rev (y # ys)"
    by (rule arg_cong)
  then have "s = rev ys @ [y]"
    by simp
  then have "last s = y" by simp
  with l r have b: "dropWhile isspace (rev s) = rev s"
    by simp
  show ?thesis by (simp add: str_strip_def a b)
qed

lemma trimmed_map:
  assumes t: "trimmed s" and f: "\<And>c. \<not> isspace c \<Longrightarrow> \<not> isspace (f c)"
  shows "trimmed (map f s)"
proof (cases "s = []")
  case True
  then show ?thesis by (simp add: trimmed_def)
next
  case False
  with t have "\<not> isspace (hd s)" and "\<not> isspace (last s)"
    by (simp_all add: trimmed_def)
  then have "\<not> isspace (f (hd s))" and "\<not> isspace (f (last s))"
    by (simp_all add: f)
  with False show ?thesis
    by (simp add: trimmed_def hd_map last_map)
qed

lemma trimmed_clean_name: "trimmed (clean_name s)"
  unfolding clean_name_def str_lower_def
  by (intro trimmed_map str_strip_trimmed) (simp_all add: isspace_lower_char not_isspace_underscore)

lemma clean_name_idem: "clean_name (clean_name s) = clean_name s"
proof -
  have "clean_name (clean_name s) = map space_to_underscore (str_lower (clean_name s))"
    by (simp add: clean_name_def [of "clean_name s"] trimmed_str_strip trimmed_clean_name)
  also have "\<dots> = clean_name s"
    by (simp add: clean_name_def str_lower_def lower_char_underscore space_to_underscore_idem)
  finally show ?thesis .
qed

lemma clean_column_names_map: "clean_column_names idx = map clean_name idx"
  by (simp add: clean_column_names_def index_replace_def index_lower_def index_strip_def
      clean_name_def str_replace_space)

section \<open>Facts about tables\<close>

lemma columns_set_columns:
  "length names = length df \<Longrightarrow> columns (set_columns df names) = names"
  by (simp add: columns_def set_columns_def)

lemma cells_set_columns:
  "length names = length df \<Longrightarrow> map snd (set_columns df names) = map snd df"
  by (simp add: set_columns_def)

lemma length_clean_column_names: "length (clean_column_names idx) = length idx"
  by (simp add: clean_column_names_map)

lemma columns_clean_columns: "columns (clean_columns df) = map clean_name (columns df)"
proof -
  have "length (clean_column_names (columns df)) = length df"
    by (simp add: length_clean_column_names columns_def)
  then have "columns (clean_columns df) = clean_column_names (columns df)"
    unfolding clean_columns_def by (rule columns_set_columns)
  then show ?thesis by (simp add: clean_column_names_map)
qed

lemma cells_clean_columns: "map snd (clean_columns df) = map snd df"
proof -
  have "length (clean_column_names (columns df)) = length df"
    by (simp add: length_clean_column_names columns_def)
  then show ?thesis
    unfolding clean_columns_def by (rule cells_set_columns)
qed

lemma length_clean_columns: "length (clean_columns df) = length df"
  using cells_clean_columns [of df] by (metis length_map)

lemma dataframe_eqI:
  assumes "columns a = columns b" and "map snd a = map snd b"
  shows "a = (b :: dataframe)"
proof -
  have "zip (map fst a) (map snd a) = zip (map fst b) (map snd b)"
    using assms by (simp add: columns_def)
  then show ?thesis by (simp add: zip_map_fst_snd)
qed

section \<open>Column-name cleaning\<close>

text \<open>
  C2. Cleaning keeps the number and the order of the columns and their cells, and the
  name at every position is the old name at that position trimmed, then lowercased, then
  with each space replaced by an underscore: the three chained index operations of the
  source amount to \<open>clean_name\<close> on each name.
\<close>

theorem clean_columns_each_name:
  "length (clean_columns df) = length df \<and>
   (\<forall>i<length df.
      fst (clean_columns df ! i) = str_replace '' '' ''_'' (str_lower (str_strip (fst (df ! i)))) \<and>
      fst (clean_columns df ! i) = clean_name (fst (df ! i)) \<and>
      snd (clean_columns df ! i) = snd (df ! i))"
proof (intro conjI allI impI)
  show len: "length (clean_columns df) = length df"
    by (rule length_clean_columns)
  fix i assume i: "i < length df"
  have "fst (clean_columns df ! i) = columns (clean_columns df) ! i"
    using i len by (simp add: columns_def)
  also have "\<dots> = map clean_name (columns df) ! i"
    by (simp only: columns_clean_columns)
  also have "\<dots> = clean_name (fst (df ! i))"
    using i by (simp add: columns_def)
  finally show n: "fst (clean_columns df ! i) = clean_name (fst (df ! i))" .
  then show "fst (clean_columns df ! i) = str_replace '' '' ''_'' (str_lower (str_strip (fst (df ! i))))"
    by (simp add: clean_name_def str_replace_space)
  have "snd (clean_columns df ! i) = map snd (clean_columns df) ! i"
    using i len by simp
  also have "\<dots> = snd (df ! i)"
    using i by (simp add: cells_clean_columns)
  finally show "snd (clean_columns df ! i) = snd (df ! i)" .
qed

theorem clean_columns_each_name_witness:
  "(1::nat) < length [(''  Full Name '', [Str ''Ann'']), (''x'', []), (''DOB'', [NaN])] \<and>
   fst (clean_columns [(''  Full Name '', [Str ''Ann'']), (''x'', []), (''DOB'', [NaN])] ! 0)
     = ''full_name'' \<and>
   snd (clean_columns [(''  Full Name '', [Str ''Ann'']), (''x'', []), (''DOB'', [NaN])] ! 2)
     = [NaN]"
proof -
  let ?df = "[(''  Full Name '', [Str ''Ann'']), (''x'', []), (''DOB'', [NaN])]"
  have c0: "clean_name ''  Full Name '' = ''full_name''"
    by code_simp
  have "0 < length ?df" and "2 < length ?df"
    by simp_all
  with clean_columns_each_name [of ?df]
  have "fst (clean_columns ?df ! 0) = clean_name (fst (?df ! 0))"
    and "snd (clean_columns ?df ! 2) = snd (?df ! 2)"
    by blast+
  then show ?thesis
    by (simp add: c0)
qed

text \<open>
  C9. Cleaning the column names twice gives the same names as cleaning them once, for an
  index and for a table.
\<close>

theorem clean_column_names_idempotent:
  "clean_column_names (clean_column_names idx) = clean_column_names idx \<and>
   clean_columns (clean_columns df) = clean_columns df"
proof
  show "clean_column_names (clean_column_names idx) = clean_column_names idx"
    by (simp add: clean_column_names_map clean_name_idem)
  show "clean_columns (clean_columns df) = clean_columns df"
    by (rule dataframe_eqI) (simp_all add: columns_clean_columns cells_clean_columns clean_name_idem)
qed

section \<open>Facts about the rename specification\<close>

lemma str_split_no_sep: "count_list s sep = 0 \<Longrightarrow> str_split sep s = [s]"
  by (induction s) (auto split: if_splits)

lemma str_split_one_colon:
  "well_formed_pair pair \<Longrightarrow> str_split CHR '':'' pair = [pair_old pair, pair_new pair]"
  unfolding well_formed_pair_def pair_old_def pair_new_def
proof (induction pair)
  case Nil
  then show ?case by simp
next
  case (Cons c cs)
  show ?case
  proof (cases "c = CHR '':''")
    case True
    with Cons.prems have "count_list cs CHR '':'' = 0" by simp
    then have "str_split CHR '':'' cs = [cs]" by (rule str_split_no_sep)
    with True show ?thesis by simp
  next
    case False
    with Cons.prems have "count_list cs CHR '':'' = 1" by simp
    with Cons.IH False show ?thesis by simp
  qed
qed

lemma length_str_split: "length (str_split sep s) = Suc (count_list s sep)"
  by (induction s) (auto split: list.splits)

lemma unpack2_error: "unpack2 fs = Inl e \<Longrightarrow> e = ValueError"
  by (cases fs rule: unpack2.cases) simp_all

lemma unpack2_fails: "length fs \<noteq> 2 \<Longrightarrow> unpack2 fs = Inl ValueError"
  by (cases fs rule: unpack2.cases) simp_all

lemma unpack2_pair: "well_formed_pair pair \<Longrightarrow>
  unpack2 (str_split CHR '':'' pair) = Inr (pair_old pair, pair_new pair)"
  by (simp add: str_split_one_colon)

lemma unpack2_bad_pair: "\<not> well_formed_pair pair \<Longrightarrow>
  unpack2 (str_split CHR '':'' pair) = Inl ValueError"
  by (rule unpack2_fails) (simp add: length_str_split well_formed_pair_def)

lemma rename_loop_ok:
  "list_all well_formed_pair pairs \<Longrightarrow>
   rename_loop pairs d =
     Inr (fold (\<lambda>p acc. dict_set acc (fst (pair_entry p)) (snd (pair_entry p))) pairs d)"
  by (induction pairs arbitrary: d) (simp_all add: unpack2_pair pair_entry_def)

lemma rename_loop_bad:
  "\<not> list_all well_formed_pair pairs \<Longrightarrow> rename_loop pairs d = Inl ValueError"
proof (induction pairs arbitrary: d)
  case Nil
  then show ?case by simp
next
  case (Cons p ps)
  show ?case
  proof (cases "well_formed_pair p")
    case True
    with Cons.prems have "\<not> list_all well_formed_pair ps" by simp
    then show ?thesis by (simp add: unpack2_pair True Cons.IH)
  next
    case False
    then show ?thesis by (simp add: unpack2_bad_pair)
  qed
qed

lemma map_of_dict_set: "map_of (dict_set d k v) = (map_of d)(k \<mapsto> v)"
  by (induction d k v rule: dict_set.induct) (auto simp: fun_eq_iff)

lemma map_of_fold_dict_set:
  "map_of (fold (\<lambda>p acc. dict_set acc (fst (pair_entry p)) (snd (pair_entry p))) pairs d) =
   map_of (rev (map pair_entry pairs) @ d)"
proof (induction pairs arbitrary: d)
  case Nil
  then show ?case by simp
next
  case (Cons p ps)
  have "map_of (rev (map pair_entry ps) @ dict_set d (fst (pair_entry p)) (snd (pair_entry p)))
      = map_of (rev (map pair_entry ps) @ [pair_entry p] @ d)"
    by (simp add: map_of_dict_set fun_eq_iff map_add_def split: option.splits)
  with Cons.IH [of "dict_set d (fst (pair_entry p)) (snd (pair_entry p))"]
  show ?case by simp
qed

lemma parse_rename_columns_ok:
  assumes "list_all well_formed_pair (spec_pairs r)"
  shows "\<exists>d. parse_rename_columns r = Inr d \<and>
             (\<forall>k. dict_get d k = map_of (rev (map pair_entry (spec_pairs r))) k)"
proof (cases "r = []")
  case True
  then show ?thesis
    by (simp add: parse_rename_columns_def spec_pairs_def dict_get_def)
next
  case False
  with assms have "list_all well_formed_pair (str_split CHR '','' r)"
    by (simp add: spec_pairs_def)
  then show ?thesis
    using False
    by (simp add: parse_rename_columns_def spec_pairs_def dict_get_def rename_loop_ok
        map_of_fold_dict_set)
qed

lemma parse_rename_columns_bad:
  assumes "\<not> list_all well_formed_pair (spec_pairs r)"
  shows "r \<noteq> []" and "parse_rename_columns r = Inl ValueError"
proof -
  show ne: "r \<noteq> []"
    using assms by (auto simp: spec_pairs_def)
  with assms have "\<not> list_all well_formed_pair (str_split CHR '','' r)"
    by (simp add: spec_pairs_def)
  then show "parse_rename_columns r = Inl ValueError"
    using ne by (simp add: parse_rename_columns_def rename_loop_bad)
qed

lemma rename_columns_Ignore:
  "rename_columns Ignore d df = Inr (map (\<lambda>(name, cells). (rename_label d name, cells)) df)"
  by (simp add: rename_columns_def)

lemma cells_renamed: "map snd (map (\<lambda>(name, cells). (rename_label d name, cells)) df) = map snd df"
  by (induction df) auto

lemma columns_renamed:
  "columns (map (\<lambda>(name, cells). (rename_label d name, cells)) df) = map (rename_label d) (columns df)"
  by (induction df) (auto simp: columns_def)

lemma parse_example: "parse_rename_columns ''Full_Name:Name'' = Inr [(''full_name'', ''Name'')]"
  by code_simp

lemma rename_stage_ok:
  assumes "parse_rename_columns r = Inr d"
  shows "fst (rename_stage (Some r) df w) =
           Inr (map (\<lambda>(name, cells). (rename_label (if r = [] then [] else d) name, cells)) df)"
proof (cases "r = []")
  case True
  have "map (\<lambda>(name, cells). (rename_label [] name, cells)) df = df"
    by (induction df) (auto simp: rename_label_def dict_get_def)
  with True show ?thesis by (simp add: rename_stage_def)
next
  case False
  with assms show ?thesis
    by (simp add: rename_stage_def rename_columns_Ignore)
qed

text \<open>
  C4. When every pair of the specification has exactly one colon, parsing succeeds and
  the dictionary maps the trimmed, lowercased text before the colon of each pair to the
  trimmed text after it (the last pair wins for a repeated key); renaming with it
  replaces exactly the labels that are keys by their values and keeps the others. The
  specification \<open>Full_Name:Name\<close> turns the columns \<open>full_name\<close>, \<open>dob\<close> into
  \<open>Name\<close>, \<open>dob\<close>. The empty specification gives the empty dictionary and leaves the
  table as it is.
\<close>

theorem rename_specification:
  "(list_all well_formed_pair (spec_pairs r) \<longrightarrow>
      (\<exists>d. parse_rename_columns r = Inr d \<and>
           (\<forall>k. dict_get d k = map_of (rev (map pair_entry (spec_pairs r))) k) \<and>
           (\<forall>df. \<exists>df'. rename_columns Ignore d df = Inr df' \<and>
                 columns df' =
                   map (\<lambda>name. case dict_get d name of None \<Rightarrow> name | Some new \<Rightarrow> new)
                     (columns df)))) \<and>
   (\<forall>c1 c2 w. fst (rename_stage (Some ''Full_Name:Name'') [(''full_name'', c1), (''dob'', c2)] w)
       = Inr [(''Name'', c1), (''dob'', c2)]) \<and>
   parse_rename_columns [] = Inr [] \<and>
   rename_columns Ignore [] df = Inr df \<and>
   rename_stage (Some []) df w = (Inr df, w)"
proof (intro conjI impI allI)
  assume "list_all well_formed_pair (spec_pairs r)"
  then obtain d where d: "parse_rename_columns r = Inr d"
    and g: "\<forall>k. dict_get d k = map_of (rev (map pair_entry (spec_pairs r))) k"
    using parse_rename_columns_ok by blast
  have "columns (map (\<lambda>(name, cells). (rename_label d name, cells)) df) =
          map (\<lambda>name. case dict_get d name of None \<Rightarrow> name | Some new \<Rightarrow> new) (columns df)" for df
    unfolding columns_renamed by (simp add: rename_label_def)
  with d g show "\<exists>d. parse_rename_columns r = Inr d \<and>
           (\<forall>k. dict_get d k = map_of (rev (map pair_entry (spec_pairs r))) k) \<and>
           (\<forall>df. \<exists>df'. rename_columns Ignore d df = Inr df' \<and>
                 columns df' =
                   map (\<lambda>name. case dict_get d name of None \<Rightarrow> name | Some new \<Rightarrow> new)
                     (columns df))"
    by (auto simp: rename_columns_Ignore)
next
  fix c1 c2 w
  show "fst (rename_stage (Some ''Full_Name:Name'') [(''full_name'', c1), (''dob'', c2)] w)
       = Inr [(''Name'', c1), (''dob'', c2)]"
    by (simp add: rename_stage_ok [OF parse_example] rename_label_def dict_get_def)
next
  show "parse_rename_columns [] = Inr []"
    by (simp add: parse_rename_columns_def)
next
  have "map (\<lambda>(name, cells). (rename_label [] name, cells)) df = df"
    by (induction df) (auto simp: rename_label_def dict_get_def)
  then show "rename_columns Ignore [] df = Inr df"
    by (simp add: rename_columns_Ignore)
next
  show "rename_stage (Some []) df w = (Inr df, w)"
    by (simp add: rename_stage_def)
qed

theorem rename_specification_witness:
  "list_all well_formed_pair (spec_pairs ''Full_Name:Name, dob :Born'') \<and>
   (\<exists>d. parse_rename_columns ''Full_Name:Name, dob :Born'' = Inr d \<and>
        dict_get d ''dob'' = Some ''Born'' \<and> dict_get d ''full_name'' = Some ''Name'' \<and>
        dict_get d ''Full_Name'' = None)"
proof -
  let ?r = "''Full_Name:Name, dob :Born''"
  have wf: "list_all well_formed_pair (spec_pairs ?r)"
    by code_simp
  have e: "rev (map pair_entry (spec_pairs ?r)) = [(''dob'', ''Born''), (''full_name'', ''Name'')]"
    by code_simp
  from rename_specification [of ?r] wf
  obtain d where "parse_rename_columns ?r = Inr d"
    and "\<forall>k. dict_get d k = map_of (rev (map pair_entry (spec_pairs ?r))) k"
    by blast
  then have "parse_rename_columns ?r = Inr d \<and>
        dict_get d ''dob'' = Some ''Born'' \<and> dict_get d ''full_name'' = Some ''Name'' \<and>
        dict_get d ''Full_Name'' = None"
    by (simp add: e)
  with wf show ?thesis by blast
qed

text \<open>
  C10. Renaming with the default error mode returns a table for every dictionary and
  every table, whatever the keys: the result has the same number of columns, each with
  the cells it had, in the same order, a label that is no key is kept, and the rename
  stage of the pipeline succeeds whenever the specification parses.
\<close>

theorem rename_only_relabels:
  "\<exists>df'. rename_columns Ignore d df = Inr df' \<and>
         length df' = length df \<and>
         map snd df' = map snd df \<and>
         (\<forall>i<length df. snd (df' ! i) = snd (df ! i) \<and>
              fst (df' ! i) = rename_label d (fst (df ! i)) \<and>
              (dict_get d (fst (df ! i)) = None \<longrightarrow> fst (df' ! i) = fst (df ! i))) \<and>
         (\<forall>r w. parse_rename_columns r = Inr d \<longrightarrow>
              (\<exists>df''. fst (rename_stage (Some r) df w) = Inr df'' \<and> map snd df'' = map snd df \<and>
                 length df'' = length df))"
proof -
  let ?f = "\<lambda>d (name, cells). (rename_label d name, cells)"
  have nth: "snd (map (?f d) df ! i) = snd (df ! i) \<and>
      fst (map (?f d) df ! i) = rename_label d (fst (df ! i)) \<and>
      (dict_get d (fst (df ! i)) = None \<longrightarrow> fst (map (?f d) df ! i) = fst (df ! i))"
    if "i < length df" for i
    using that by (simp add: case_prod_beta rename_label_def)
  have stage: "\<exists>df''. fst (rename_stage (Some r) df w) = Inr df'' \<and> map snd df'' = map snd df \<and>
      length df'' = length df" if "parse_rename_columns r = Inr d" for r w
    using rename_stage_ok [OF that, of df w] by (simp add: cells_renamed case_prod_beta)
  have ok: "rename_columns Ignore d df = Inr (map (?f d) df)"
    by (rule rename_columns_Ignore)
  have len: "length (map (?f d) df) = length df"
    by simp
  have cells: "map snd (map (?f d) df) = map snd df"
    by (rule cells_renamed)
  from ok len cells nth stage show ?thesis
    by blast
qed

theorem rename_only_relabels_witness:
  "(1::nat) < length [(''name'', [Str ''Ann'', NaN]), (''dob'', [IntV 3, IntV 4])] \<and>
   dict_get [(''ghost'', ''g''), (''dob'', ''Born'')]
     (fst ([(''name'', [Str ''Ann'', NaN]), (''dob'', [IntV 3, IntV 4])] ! 0)) = None \<and>
   (\<exists>df'. rename_columns Ignore [(''ghost'', ''g''), (''dob'', ''Born'')]
            [(''name'', [Str ''Ann'', NaN]), (''dob'', [IntV 3, IntV 4])] = Inr df' \<and>
          fst (df' ! 0) = ''name'' \<and> df' ! 1 = (''Born'', [IntV 3, IntV 4]))"
proof -
  let ?d = "[(''ghost'', ''g''), (''dob'', ''Born'')]"
  let ?df = "[(''name'', [Str ''Ann'', NaN]), (''dob'', [IntV 3, IntV 4])]"
  have l: "0 < length ?df" "1 < length ?df"
    by simp_all
  have n: "dict_get ?d (fst (?df ! 0)) = None"
    by (simp add: dict_get_def)
  from rename_only_relabels [of ?d ?df]
  obtain df' where r: "rename_columns Ignore ?d ?df = Inr df'"
    and a: "\<forall>i<length ?df. snd (df' ! i) = snd (?df ! i) \<and>
              fst (df' ! i) = rename_label ?d (fst (?df ! i)) \<and>
              (dict_get ?d (fst (?df ! i)) = None \<longrightarrow> fst (df' ! i) = fst (?df ! i))"
    by blast
  from a l(1) n have "fst (df' ! 0) = fst (?df ! 0)"
    by blast
  moreover from a l(2) have "snd (df' ! 1) = snd (?df ! 1)"
    and "fst (df' ! 1) = rename_label ?d (fst (?df ! 1))"
    by blast+
  ultimately have "fst (df' ! 0) = ''name'' \<and> df' ! 1 = (''Born'', [IntV 3, IntV 4])"
    by (simp add: prod_eq_iff rename_label_def dict_get_def)
  with r l n show ?thesis
    by blast
qed

end
